theory Spec2Isabelle
  imports Main
begin

section \<open>JavaScript values and HTTP messages\<close>

text \<open>
  The fields of a parsed JSON request body. A field that the body does not carry reads as
  \<open>JUndefined\<close>. JSON numbers are modelled where they are integral; nested objects and
  arrays as field values are left out of the model.
\<close>

datatype jsval = JUndefined | JNull | JBool bool | JNum int | JStr string

text \<open>JavaScript truthiness, as tested by \<^verbatim>\<open>!x\<close> and \<^verbatim>\<open>x || y\<close>.\<close>

fun truthy :: "jsval \<Rightarrow> bool" where
  "truthy JUndefined = False"
| "truthy JNull = False"
| "truthy (JBool b) = b"
| "truthy (JNum n) = (n \<noteq> 0)"
| "truthy (JStr s) = (s \<noteq> [])"

definition js_or :: "jsval \<Rightarrow> jsval \<Rightarrow> jsval" where
  "js_or a b = (if truthy a then a else b)"

text \<open>
  A user record as the data service builds it:
  \<^verbatim>\<open>{ id, name, email, role, createdAt }\<close>. The field \<^verbatim>\<open>id\<close> is called \<open>uid\<close> here.
\<close>

record user =
  uid :: string
  name :: jsval
  email :: jsval
  role :: jsval
  createdAt :: string

text \<open>
  The JSON bodies the two services send. \<open>UsersBody data total\<close> is
  \<^verbatim>\<open>{ data, total }\<close>; \<open>ReadyBody s d v\<close> is \<^verbatim>\<open>{ status: s, dependencies: { d: v } }\<close>;
  \<open>HealthyBody svc ts\<close> is \<^verbatim>\<open>{ status: 'healthy', service: svc, timestamp: ts }\<close>;
  \<open>ErrorBody m\<close> is \<^verbatim>\<open>{ error: m }\<close>; \<open>NoBody\<close> is \<^verbatim>\<open>res.send()\<close>.
\<close>

datatype body =
    NoBody
  | ErrorBody string
  | UserBody user
  | UsersBody "user list" nat
  | ReadyBody string string string
  | HealthyBody string string
  | AliveBody

type_synonym response = "nat \<times> body"

section \<open>The key-value store client\<close>

text \<open>
  The data service keeps the whole collection as one serialised blob under the key
  \<^verbatim>\<open>USERS_KEY\<close>. The service is the only writer of that key, and it writes
  \<^verbatim>\<open>JSON.stringify\<close> of an array of user records, so the blob is modelled by the list
  that \<^verbatim>\<open>JSON.parse\<close> gives back; \<open>None\<close> is the absent key.

  The promise of a command sent to the store resolves, or rejects (connection refused,
  retries exhausted), or never settles: the client is created with
  \<^verbatim>\<open>maxRetriesPerRequest: 3\<close> and no \<^verbatim>\<open>commandTimeout\<close>, so a store that holds the
  connection and stays silent leaves the command pending for good. The field \<open>faults\<close>
  is the schedule of the environment: its head is what happens to the next command; an
  exhausted schedule means the store serves every further command. \<open>oplog\<close> records the
  commands that were sent.
\<close>

datatype redis_cmd = CONNECT | PING | EXISTS | GET | SET "user list" | QUIT

datatype reply = Serves | Rejects | Stalls

record redis =
  users_key :: "user list option"
  faults :: "reply list"
  oplog :: "redis_cmd list"

definition issue :: "redis_cmd \<Rightarrow> redis \<Rightarrow> reply \<times> redis" where
  "issue c r =
     (case faults r of
        [] \<Rightarrow> (Serves, r\<lparr>oplog := oplog r @ [c]\<rparr>)
      | f # fs \<Rightarrow> (f, r\<lparr>faults := fs, oplog := oplog r @ [c]\<rparr>))"

datatype redis_error = StoreUnavailable

text \<open>
  The result of awaiting a command: \<open>Some (Inr v)\<close> when it resolves to \<open>v\<close>,
  \<open>Some (Inl e)\<close> when it rejects with \<open>e\<close>, \<open>None\<close> when it never settles; and the
  client afterwards.
\<close>

definition redis_connect :: "redis \<Rightarrow> (redis_error + unit) option \<times> redis" where
  "redis_connect r =
     (let (f, r') = issue CONNECT r
      in case f of
           Serves \<Rightarrow> (Some (Inr ()), r')
         | Rejects \<Rightarrow> (Some (Inl StoreUnavailable), r')
         | Stalls \<Rightarrow> (None, r'))"

definition redis_ping :: "redis \<Rightarrow> (redis_error + unit) option \<times> redis" where
  "redis_ping r =
     (let (f, r') = issue PING r
      in case f of
           Serves \<Rightarrow> (Some (Inr ()), r')
         | Rejects \<Rightarrow> (Some (Inl StoreUnavailable), r')
         | Stalls \<Rightarrow> (None, r'))"

text \<open>\<^verbatim>\<open>redis.exists(key)\<close> resolves to the number of the given keys that exist.\<close>

definition redis_exists :: "redis \<Rightarrow> (redis_error + nat) option \<times> redis" where
  "redis_exists r =
     (let (f, r') = issue EXISTS r
      in case f of
           Serves \<Rightarrow> (Some (Inr (case users_key r' of None \<Rightarrow> 0 | Some _ \<Rightarrow> 1)), r')
         | Rejects \<Rightarrow> (Some (Inl StoreUnavailable), r')
         | Stalls \<Rightarrow> (None, r'))"

definition redis_get :: "redis \<Rightarrow> (redis_error + user list option) option \<times> redis" where
  "redis_get r =
     (let (f, r') = issue GET r
      in case f of
           Serves \<Rightarrow> (Some (Inr (users_key r')), r')
         | Rejects \<Rightarrow> (Some (Inl StoreUnavailable), r')
         | Stalls \<Rightarrow> (None, r'))"

text \<open>A \<^verbatim>\<open>SET\<close> that is rejected or never settles leaves the stored value as it was.\<close>

definition redis_set :: "user list \<Rightarrow> redis \<Rightarrow> (redis_error + unit) option \<times> redis" where
  "redis_set us r =
     (let (f, r') = issue (SET us) r
      in case f of
           Serves \<Rightarrow> (Some (Inr ()), r'\<lparr>users_key := Some us\<rparr>)
         | Rejects \<Rightarrow> (Some (Inl StoreUnavailable), r')
         | Stalls \<Rightarrow> (None, r'))"

text \<open>The commands that write the collection.\<close>

fun is_write :: "redis_cmd \<Rightarrow> bool" where
  "is_write (SET _) = True"
| "is_write _ = False"

text \<open>What the store does with the next command.\<close>

definition next_reply :: "redis \<Rightarrow> reply" where
  "next_reply r = (case faults r of [] \<Rightarrow> Serves | f # fs \<Rightarrow> f)"

text \<open>\<open>served n r\<close>: the store serves the next \<open>n\<close> commands.\<close>

definition served :: "nat \<Rightarrow> redis \<Rightarrow> bool" where
  "served n r = list_all (\<lambda>f. f = Serves) (take n (faults r))"

section \<open>The data service\<close>

text \<open>
  A handler that awaits the store gives the response it sends, \<open>None\<close> when it sends
  none because a command it awaits never settles, and the store client afterwards.
\<close>

text \<open>\<^verbatim>\<open>data ? JSON.parse(data) : []\<close>\<close>

definition parse_users :: "user list option \<Rightarrow> user list" where
  "parse_users d = (case d of None \<Rightarrow> [] | Some us \<Rightarrow> us)"

text \<open>\<^verbatim>\<open>Array.prototype.findIndex\<close>: the first index whose element satisfies \<open>p\<close>, or \<open>-1\<close>.\<close>

fun findIndex_from :: "int \<Rightarrow> ('a \<Rightarrow> bool) \<Rightarrow> 'a list \<Rightarrow> int" where
  "findIndex_from i p [] = -1"
| "findIndex_from i p (x # xs) = (if p x then i else findIndex_from (i + 1) p xs)"

definition findIndex :: "('a \<Rightarrow> bool) \<Rightarrow> 'a list \<Rightarrow> int" where
  "findIndex p xs = findIndex_from 0 p xs"

text \<open>\<^verbatim>\<open>xs.splice(index, 1)\<close> for an index that \<^verbatim>\<open>findIndex\<close> returned and that is not \<open>-1\<close>.\<close>

definition splice1 :: "int \<Rightarrow> 'a list \<Rightarrow> 'a list" where
  "splice1 i xs = take (nat i) xs @ drop (Suc (nat i)) xs"

text \<open>
  \<^verbatim>\<open>GET /health\<close> and \<^verbatim>\<open>GET /health/live\<close> send no command to the store and always
  answer; \<open>ts\<close> is \<^verbatim>\<open>new Date().toISOString()\<close>.
\<close>

definition get_health :: "string \<Rightarrow> redis \<Rightarrow> response \<times> redis" where
  "get_health ts r = ((200, HealthyBody ''user-service'' ts), r)"

definition get_health_live :: "redis \<Rightarrow> response \<times> redis" where
  "get_health_live r = ((200, AliveBody), r)"

text \<open>
  \<^verbatim>\<open>GET /health/ready\<close>: \<^verbatim>\<open>await redis.ping()\<close> inside \<^verbatim>\<open>try\<close>, with no timer
  around it.
\<close>

definition get_health_ready :: "redis \<Rightarrow> response option \<times> redis" where
  "get_health_ready r =
     (case redis_ping r of
        (None, r') \<Rightarrow> (None, r')
      | (Some (Inr _), r') \<Rightarrow> (Some (200, ReadyBody ''ready'' ''redis'' ''up''), r')
      | (Some (Inl _), r') \<Rightarrow> (Some (503, ReadyBody ''not ready'' ''redis'' ''down''), r'))"

text \<open>
  The three sample records of \<^verbatim>\<open>initializeData\<close>. \<open>fresh k\<close> is the pair of
  \<^verbatim>\<open>uuidv4()\<close> and \<^verbatim>\<open>new Date().toISOString()\<close> evaluated for the \<open>k\<close>-th record.
\<close>

definition sampleUsers :: "(nat \<Rightarrow> string \<times> string) \<Rightarrow> user list" where
  "sampleUsers fresh =
     [ \<lparr>uid = fst (fresh 0), name = JStr ''John Doe'', email = JStr ''john@example.com'',
        role = JStr ''admin'', createdAt = snd (fresh 0)\<rparr>,
       \<lparr>uid = fst (fresh 1), name = JStr ''Jane Smith'', email = JStr ''jane@example.com'',
        role = JStr ''user'', createdAt = snd (fresh 1)\<rparr>,
       \<lparr>uid = fst (fresh 2), name = JStr ''Bob Wilson'', email = JStr ''bob@example.com'',
        role = JStr ''user'', createdAt = snd (fresh 2)\<rparr> ]"

text \<open>
  \<^verbatim>\<open>initializeData\<close>: connect, test the key, write the samples when it is absent. Any
  rejection is caught and logged. The first component is \<open>Some ()\<close> when the function
  returns and \<open>None\<close> when a command it awaits never settles; the second is the store
  client afterwards.
\<close>

definition initializeData :: "(nat \<Rightarrow> string \<times> string) \<Rightarrow> redis \<Rightarrow> unit option \<times> redis" where
  "initializeData fresh r =
     (case redis_connect r of
        (None, r1) \<Rightarrow> (None, r1)
      | (Some (Inl _), r1) \<Rightarrow> (Some (), r1)
      | (Some (Inr _), r1) \<Rightarrow>
          (case redis_exists r1 of
             (None, r2) \<Rightarrow> (None, r2)
           | (Some (Inl _), r2) \<Rightarrow> (Some (), r2)
           | (Some (Inr ex), r2) \<Rightarrow>
               if ex = 0 then
                 (case redis_set (sampleUsers fresh) r2 of
                    (None, r3) \<Rightarrow> (None, r3)
                  | (Some _, r3) \<Rightarrow> (Some (), r3))
               else (Some (), r2)))"

definition get_users :: "redis \<Rightarrow> response option \<times> redis" where
  "get_users r =
     (case redis_get r of
        (None, r') \<Rightarrow> (None, r')
      | (Some (Inl _), r') \<Rightarrow> (Some (500, ErrorBody ''Failed to retrieve users''), r')
      | (Some (Inr d), r') \<Rightarrow>
          (let users = parse_users d in (Some (200, UsersBody users (length users)), r')))"

definition get_users_id :: "string \<Rightarrow> redis \<Rightarrow> response option \<times> redis" where
  "get_users_id i r =
     (case redis_get r of
        (None, r') \<Rightarrow> (None, r')
      | (Some (Inl _), r') \<Rightarrow> (Some (500, ErrorBody ''Failed to retrieve user''), r')
      | (Some (Inr d), r') \<Rightarrow>
          (case find (\<lambda>u. uid u = i) (parse_users d) of
             None \<Rightarrow> (Some (404, ErrorBody ''User not found''), r')
           | Some u \<Rightarrow> (Some (200, UserBody u), r')))"

text \<open>
  \<^verbatim>\<open>POST /users\<close>. The body is the triple of its fields \<^verbatim>\<open>name\<close>, \<^verbatim>\<open>email\<close>,
  \<^verbatim>\<open>role\<close>; \<open>fid\<close> and \<open>now\<close> are what \<^verbatim>\<open>uuidv4()\<close> and
  \<^verbatim>\<open>new Date().toISOString()\<close> return in this call.
\<close>

definition post_users ::
  "string \<Rightarrow> string \<Rightarrow> jsval \<times> jsval \<times> jsval \<Rightarrow> redis \<Rightarrow> response option \<times> redis" where
  "post_users fid now b r =
     (case b of (nm, em, rl) \<Rightarrow>
        if \<not> truthy nm \<or> \<not> truthy em
        then (Some (400, ErrorBody ''Name and email are required''), r)
        else
          (case redis_get r of
             (None, r1) \<Rightarrow> (None, r1)
           | (Some (Inl _), r1) \<Rightarrow> (Some (500, ErrorBody ''Failed to create user''), r1)
           | (Some (Inr d), r1) \<Rightarrow>
               (let users = parse_users d in
                if find (\<lambda>u. email u = em) users \<noteq> None
                then (Some (409, ErrorBody ''Email already exists''), r1)
                else
                  (let newUser = \<lparr>uid = fid, name = nm, email = em,
                                   role = js_or rl (JStr ''user''), createdAt = now\<rparr>
                   in case redis_set (users @ [newUser]) r1 of
                        (None, r2) \<Rightarrow> (None, r2)
                      | (Some (Inl _), r2) \<Rightarrow> (Some (500, ErrorBody ''Failed to create user''), r2)
                      | (Some (Inr _), r2) \<Rightarrow> (Some (201, UserBody newUser), r2)))))"

definition delete_users_id :: "string \<Rightarrow> redis \<Rightarrow> response option \<times> redis" where
  "delete_users_id i r =
     (case redis_get r of
        (None, r1) \<Rightarrow> (None, r1)
      | (Some (Inl _), r1) \<Rightarrow> (Some (500, ErrorBody ''Failed to delete user''), r1)
      | (Some (Inr d), r1) \<Rightarrow>
          (let users = parse_users d; index = findIndex (\<lambda>u. uid u = i) users in
           if index = -1
           then (Some (404, ErrorBody ''User not found''), r1)
           else
             (case redis_set (splice1 index users) r1 of
                (None, r2) \<Rightarrow> (None, r2)
              | (Some (Inl _), r2) \<Rightarrow> (Some (500, ErrorBody ''Failed to delete user''), r2)
              | (Some (Inr _), r2) \<Rightarrow> (Some (204, NoBody), r2))))"

section \<open>The gateway\<close>

text \<open>
  How an \<^verbatim>\<open>axios\<close> call settles on the answer that ends it. An answer with a 3xx status
  and a \<^verbatim>\<open>Location\<close> header does not end the call: the library follows it (see
  \<open>follow\<close> below), and the data service sends none of its answers with that header.
  On the answer that ends it the call resolves with the status and body when the status
  passes \<^verbatim>\<open>validateStatus\<close> (the library's default: a 2xx status), and rejects with an
  error that carries \<^verbatim>\<open>error.response\<close> otherwise. It rejects with an error that has
  no \<^verbatim>\<open>response\<close> (only the library's message text) when no answer arrived: connection
  refused, DNS failure, timeout, too many redirects.
\<close>

datatype axios_error = HttpError nat body | NoResponse string

datatype axios_result = Resolved nat body | Rejected axios_error

definition validateStatus :: "nat \<Rightarrow> bool" where
  "validateStatus s = (200 \<le> s \<and> s < 300)"

definition settle :: "response \<Rightarrow> axios_result" where
  "settle resp =
     (case resp of (s, b) \<Rightarrow>
        if validateStatus s then Resolved s b else Rejected (HttpError s b))"

text \<open>\<^verbatim>\<open>error.response?.status\<close>\<close>

fun response_status :: "axios_error \<Rightarrow> nat option" where
  "response_status (HttpError s b) = Some s"
| "response_status (NoResponse m) = None"

text \<open>
  What the forwarding handlers do once their one \<^verbatim>\<open>axios\<close> call has settled, as a
  function of how it settled. \<^verbatim>\<open>res.json(x)\<close> without \<^verbatim>\<open>res.status\<close> answers with
  status 200.
\<close>

definition api_get_users :: "axios_result \<Rightarrow> response" where
  "api_get_users a =
     (case a of
        Resolved s b \<Rightarrow> (200, b)
      | Rejected e \<Rightarrow> (502, ErrorBody ''Failed to fetch users from user-service''))"

definition api_get_users_id :: "axios_result \<Rightarrow> response" where
  "api_get_users_id a =
     (case a of
        Resolved s b \<Rightarrow> (200, b)
      | Rejected e \<Rightarrow>
          if response_status e = Some 404 then (404, ErrorBody ''User not found'')
          else (502, ErrorBody ''Failed to fetch user from user-service''))"

definition api_post_users :: "axios_result \<Rightarrow> response" where
  "api_post_users a =
     (case a of
        Resolved s b \<Rightarrow> (201, b)
      | Rejected e \<Rightarrow> (502, ErrorBody ''Failed to create user''))"


text \<open>
  The gateway in front of a data service that is reachable: the body goes to the data
  service's \<^verbatim>\<open>POST /users\<close>, and the answer comes back through \<^verbatim>\<open>axios\<close>. The call
  has no timeout, so the gateway sends no answer when the data service sends none.
\<close>

definition api_post_users_via ::
  "string \<Rightarrow> string \<Rightarrow> jsval \<times> jsval \<times> jsval \<Rightarrow> redis \<Rightarrow> response option \<times> redis" where
  "api_post_users_via fid now b r =
     (case post_users fid now b r of
        (None, r') \<Rightarrow> (None, r')
      | (Some resp, r') \<Rightarrow> (Some (api_post_users (settle resp)), r'))"

text \<open>
  What the callee of a request does. \<open>Responds t resp\<close>: after \<open>t\<close> milliseconds it
  sends \<open>resp\<close>, an answer that ends the call (any status outside 3xx, or a 3xx without a
  \<^verbatim>\<open>Location\<close> header). \<open>Redirects t u\<close>: after \<open>t\<close> milliseconds it sends a 3xx
  answer with a \<^verbatim>\<open>Location\<close> header, and \<open>u\<close> is what the callee at that location
  does with the request that follows. \<open>Fails t m\<close>: the connection fails after \<open>t\<close>
  milliseconds with the message \<open>m\<close>. \<open>Silent\<close>: nothing ever comes back.
\<close>

datatype upstream =
    Responds nat response
  | Redirects nat upstream
  | Fails nat string
  | Silent

text \<open>
  None of the calls sets \<^verbatim>\<open>maxRedirects\<close>; the library's default is 5. \<open>follow n u\<close>
  is the call without its timer, with \<open>n\<close> redirects still allowed: the time at which it
  settles and how, or \<open>None\<close> when it never settles.
\<close>

definition maxRedirects :: nat where
  "maxRedirects = 5"

fun follow :: "nat \<Rightarrow> upstream \<Rightarrow> (nat \<times> axios_result) option" where
  "follow n (Responds t resp) = Some (t, settle resp)"
| "follow n (Fails t m) = Some (t, Rejected (NoResponse m))"
| "follow n Silent = None"
| "follow n (Redirects t u) =
     (case n of
        0 \<Rightarrow> Some (t, Rejected (NoResponse ''ERR_FR_TOO_MANY_REDIRECTS''))
      | Suc k \<Rightarrow>
          (case follow k u of
             None \<Rightarrow> None
           | Some (t', a) \<Rightarrow> Some (t + t', a)))"

text \<open>
  \<^verbatim>\<open>axios.get(url, { timeout })\<close>: the time at which the call settles, and how. A
  timeout of \<open>0\<close> is the library's default and means none; \<open>None\<close> is a call that never
  settles. The timer runs from the start of the call over all the redirects.
\<close>

definition axios_request :: "nat \<Rightarrow> upstream \<Rightarrow> (nat \<times> axios_result) option" where
  "axios_request timeout u =
     (case follow maxRedirects u of
        None \<Rightarrow>
          if timeout = 0 then None
          else Some (timeout, Rejected (NoResponse ''ECONNABORTED''))
      | Some (t, a) \<Rightarrow>
          if timeout = 0 \<or> t < timeout then Some (t, a)
          else Some (timeout, Rejected (NoResponse ''ECONNABORTED'')))"

text \<open>
  The gateway's \<^verbatim>\<open>GET /health/ready\<close>. \<open>net\<close> maps a path under
  \<^verbatim>\<open>USER_SERVICE_URL\<close> to what the data service does with a \<^verbatim>\<open>GET\<close> of it. The
  result is the time of the answer and the answer.
\<close>

definition gateway_get_health_ready ::
  "(string \<Rightarrow> upstream) \<Rightarrow> (nat \<times> response) option" where
  "gateway_get_health_ready net =
     (case axios_request 2000 (net ''/health'') of
        None \<Rightarrow> None
      | Some (t, Resolved s b) \<Rightarrow> Some (t, (200, ReadyBody ''ready'' ''userService'' ''up''))
      | Some (t, Rejected e) \<Rightarrow>
          Some (t, (503, ReadyBody ''not ready'' ''userService'' ''down'')))"

text \<open>
  The handlers of \<^verbatim>\<open>GET /api/users/:id\<close> and \<^verbatim>\<open>DELETE /api/users/:id\<close> with their
  call: \<^verbatim>\<open>axios.get\<close> and \<^verbatim>\<open>axios.delete\<close> of
  \<^verbatim>\<open>${USER_SERVICE_URL}/users/${req.params.id}\<close>, given no timeout. \<open>net\<close> maps a
  path to what the data service does with a request of that method for it. The result is
  the time of the gateway's answer and the answer, or \<open>None\<close> when the gateway sends
  none.
\<close>

definition forward_get_users_id :: "(string \<Rightarrow> upstream) \<Rightarrow> string \<Rightarrow> (nat \<times> response) option" where
  "forward_get_users_id net i =
     (case axios_request 0 (net (''/users/'' @ i)) of
        None \<Rightarrow> None
      | Some (t, a) \<Rightarrow> Some (t, api_get_users_id a))"


section \<open>Graceful shutdown\<close>

text \<open>
  One run of \<^verbatim>\<open>handleGracefulShutdown\<close>, with times in milliseconds after the signal.
  \<open>close_cb\<close> is when the callback of \<^verbatim>\<open>server.close\<close> runs and whether it is handed
  an error (\<open>None\<close>: the listener never finishes closing). \<open>quit_settles\<close> is how long
  \<^verbatim>\<open>redis.quit()\<close> takes once called and whether it rejects (\<open>None\<close>: it never
  settles). The process ends at the first \<^verbatim>\<open>process.exit\<close>; the result is the time and
  the exit status. When the callback chain and the timer fall on the same millisecond the
  timer is taken to run first.
\<close>

record shutdown_run =
  close_cb :: "(nat \<times> bool) option"
  quit_settles :: "(nat \<times> bool) option"

definition SHUTDOWN_TIMEOUT_MS :: nat where
  "SHUTDOWN_TIMEOUT_MS = 30000"

definition first_exit :: "(nat \<times> nat) option \<Rightarrow> nat \<times> nat" where
  "first_exit orderly =
     (case orderly of
        None \<Rightarrow> (SHUTDOWN_TIMEOUT_MS, 1)
      | Some (t, code) \<Rightarrow>
          if t < SHUTDOWN_TIMEOUT_MS then (t, code) else (SHUTDOWN_TIMEOUT_MS, 1))"

text \<open>
  The data service: \<open>server_set\<close> is whether \<^verbatim>\<open>server\<close> has been assigned when the
  signal arrives. The callback awaits \<^verbatim>\<open>redis.quit()\<close>, catching its rejection, and
  then exits with \<^verbatim>\<open>err ? 1 : 0\<close>.
\<close>

definition handleGracefulShutdown_user_service :: "bool \<Rightarrow> shutdown_run \<Rightarrow> nat \<times> nat" where
  "handleGracefulShutdown_user_service server_set run =
     first_exit
       (if server_set then
          (case close_cb run of
             None \<Rightarrow> None
           | Some (t, err) \<Rightarrow>
               (case quit_settles run of
                  None \<Rightarrow> None
                | Some (d, rejected) \<Rightarrow> Some (t + d, if err then 1 else 0)))
        else None)"

text \<open>The gateway: the callback exits with 1 when handed an error, with 0 otherwise.\<close>

definition handleGracefulShutdown_gateway :: "shutdown_run \<Rightarrow> nat \<times> nat" where
  "handleGracefulShutdown_gateway run =
     first_exit
       (case close_cb run of
          None \<Rightarrow> None
        | Some (t, err) \<Rightarrow> if err then Some (t, 1) else Some (t, 0))"

text \<open>
  The orderly sequence of a run: the listener closed without an error and, in the data
  service, the store connection was then closed, all before the timer.
\<close>

definition orderly_user_service :: "bool \<Rightarrow> shutdown_run \<Rightarrow> bool" where
  "orderly_user_service server_set run =
     (server_set \<and>
      (case (close_cb run, quit_settles run) of
         (Some (t, err), Some (d, rejected)) \<Rightarrow>
           \<not> err \<and> \<not> rejected \<and> t + d < SHUTDOWN_TIMEOUT_MS
       | _ \<Rightarrow> False))"

definition orderly_gateway :: "shutdown_run \<Rightarrow> bool" where
  "orderly_gateway run =
     (case close_cb run of Some (t, err) \<Rightarrow> \<not> err \<and> t < SHUTDOWN_TIMEOUT_MS | None \<Rightarrow> False)"

text \<open>The listener close reported an error (whenever that was).\<close>

definition close_error :: "shutdown_run \<Rightarrow> bool" where
  "close_error run = (case close_cb run of Some (t, err) \<Rightarrow> err | None \<Rightarrow> False)"

text \<open>The timer fired before the callback chain reached its \<^verbatim>\<open>process.exit\<close>.\<close>

definition timer_first_user_service :: "bool \<Rightarrow> shutdown_run \<Rightarrow> bool" where
  "timer_first_user_service server_set run =
     (\<not> server_set \<or>
      (case (close_cb run, quit_settles run) of
         (Some (t, err), Some (d, rejected)) \<Rightarrow> SHUTDOWN_TIMEOUT_MS \<le> t + d
       | _ \<Rightarrow> True))"

definition timer_first_gateway :: "shutdown_run \<Rightarrow> bool" where
  "timer_first_gateway run =
     (case close_cb run of Some (t, err) \<Rightarrow> SHUTDOWN_TIMEOUT_MS \<le> t | None \<Rightarrow> True)"

section \<open>Concrete requests and environments\<close>

text \<open>Stores, schedules and runs at which the theorems below are evaluated.\<close>

definition ann :: user where
  "ann = \<lparr>uid = ''u1'', name = JStr ''Ann'', email = JStr ''ann@x.io'',
          role = JStr ''user'', createdAt = ''2024-01-01T00:00:00.000Z''\<rparr>"

definition store_with_ann :: redis where
  "store_with_ann = \<lparr>users_key = Some [ann], faults = [], oplog = []\<rparr>"

definition store_never_seeded :: redis where
  "store_never_seeded = \<lparr>users_key = None, faults = [], oplog = []\<rparr>"

definition store_down :: redis where
  "store_down = \<lparr>users_key = Some [ann], faults = [Rejects, Rejects, Rejects], oplog = []\<rparr>"

definition store_silent :: redis where
  "store_silent = \<lparr>users_key = Some [ann], faults = [Stalls], oplog = []\<rparr>"

definition fresh_a :: "nat \<Rightarrow> string \<times> string" where
  "fresh_a k = (if k = 0 then ''a0'' else if k = 1 then ''a1'' else ''a2'',
                ''2024-01-01T00:00:00.000Z'')"

definition fresh_b :: "nat \<Rightarrow> string \<times> string" where
  "fresh_b k = (if k = 0 then ''b0'' else if k = 1 then ''b1'' else ''b2'',
                ''2024-01-01T00:00:05.000Z'')"

definition net_up :: "string \<Rightarrow> upstream" where
  "net_up p =
     (if p = ''/health'' then Responds 12 (200, HealthyBody ''user-service'' ''2024-01-01T00:00:00.000Z'')
      else Silent)"

definition net_silent :: "string \<Rightarrow> upstream" where
  "net_silent p = Silent"




definition net_moved :: "string \<Rightarrow> upstream" where
  "net_moved p = Redirects 5 (Responds 7 (200, UserBody ann))"

definition run_orderly :: shutdown_run where
  "run_orderly = \<lparr>close_cb = Some (120, False), quit_settles = Some (15, False)\<rparr>"

definition run_close_error :: shutdown_run where
  "run_close_error = \<lparr>close_cb = Some (120, True), quit_settles = Some (15, False)\<rparr>"

definition run_stuck :: shutdown_run where
  "run_stuck = \<lparr>close_cb = None, quit_settles = Some (15, False)\<rparr>"


section \<open>Facts about the store client\<close>

lemma issue_users_key: "users_key (snd (issue c r)) = users_key r"
  by (simp add: issue_def split: list.splits)

lemma issue_oplog: "oplog (snd (issue c r)) = oplog r @ [c]"
  by (simp add: issue_def split: list.splits)

lemma issue_fst: "fst (issue c r) = next_reply r"
  by (simp add: issue_def next_reply_def split: list.splits)

lemma served_next_reply: "served (Suc n) r \<Longrightarrow> next_reply r = Serves"
  by (auto simp: served_def next_reply_def split: list.splits)

lemma served_1_iff: "served (Suc 0) r = (next_reply r = Serves)"
  by (auto simp: served_def next_reply_def split: list.splits)

lemma issue_served_fst: "served (Suc n) r \<Longrightarrow> fst (issue c r) = Serves"
  by (simp add: issue_fst served_next_reply)

lemma issue_served_snd: "served (Suc n) r \<Longrightarrow> served n (snd (issue c r))"
  by (auto simp: issue_def served_def split: list.splits)

lemma redis_get_served:
  "served (Suc n) r \<Longrightarrow> redis_get r = (Some (Inr (users_key r)), snd (issue GET r))"
  using issue_served_fst [of n r GET] issue_users_key [of GET r]
  by (simp add: redis_get_def Let_def case_prod_beta)

lemma redis_set_served:
  "served (Suc n) r \<Longrightarrow>
   redis_set us r = (Some (Inr ()), (snd (issue (SET us) r))\<lparr>users_key := Some us\<rparr>)"
  using issue_served_fst [of n r "SET us"]
  by (simp add: redis_set_def Let_def case_prod_beta)

lemma redis_connect_keeps:
  "users_key (snd (redis_connect r)) = users_key r"
  "filter is_write (oplog (snd (redis_connect r))) = filter is_write (oplog r)"
  by (simp_all add: redis_connect_def Let_def case_prod_beta issue_users_key issue_oplog
        split: reply.splits)

lemma redis_exists_keeps:
  "users_key (snd (redis_exists r)) = users_key r"
  "filter is_write (oplog (snd (redis_exists r))) = filter is_write (oplog r)"
  by (simp_all add: redis_exists_def Let_def case_prod_beta issue_users_key issue_oplog
        split: reply.splits)

lemma redis_exists_result:
  "fst (redis_exists r) = Some (Inr n) \<Longrightarrow> (n = 0) = (users_key r = None)"
  by (auto simp: redis_exists_def Let_def case_prod_beta issue_users_key
           split: reply.splits option.splits)

lemma redis_connect_served:
  "served (Suc n) r \<Longrightarrow> redis_connect r = (Some (Inr ()), snd (issue CONNECT r))"
  using issue_served_fst [of n r CONNECT]
  by (simp add: redis_connect_def Let_def case_prod_beta)

lemma redis_exists_served:
  "served (Suc n) r \<Longrightarrow>
   redis_exists r =
     (Some (Inr (case users_key r of None \<Rightarrow> 0 | Some _ \<Rightarrow> 1)), snd (issue EXISTS r))"
  using issue_served_fst [of n r EXISTS]
  by (simp add: redis_exists_def Let_def case_prod_beta issue_users_key)

lemma get_health_ready_cases:
  "get_health_ready r =
     (case next_reply r of
        Serves \<Rightarrow> Some (200, ReadyBody ''ready'' ''redis'' ''up'')
      | Rejects \<Rightarrow> Some (503, ReadyBody ''not ready'' ''redis'' ''down'')
      | Stalls \<Rightarrow> None,
      snd (issue PING r))"
  using issue_fst [of PING r]
  by (simp add: get_health_ready_def redis_ping_def Let_def case_prod_beta split: reply.splits)

section \<open>Facts about \<open>findIndex\<close> and \<open>splice\<close>\<close>

lemma findIndex_from_none:
  "\<forall>x\<in>set xs. \<not> p x \<Longrightarrow> findIndex_from k p xs = -1"
  by (induction xs arbitrary: k) auto

lemma findIndex_from_some:
  "\<exists>x\<in>set xs. p x \<Longrightarrow>
   findIndex_from k p xs = k + int (length (takeWhile (\<lambda>x. \<not> p x) xs))"
proof (induction xs arbitrary: k)
  case Nil
  then show ?case by simp
next
  case (Cons a xs)
  show ?case
  proof (cases "p a")
    case True
    then show ?thesis by simp
  next
    case False
    with Cons.prems have "\<exists>x\<in>set xs. p x" by auto
    from Cons.IH [OF this, of "k + 1"] False show ?thesis by simp
  qed
qed

lemma findIndex_minus1_iff: "(findIndex p xs = -1) = (\<forall>x\<in>set xs. \<not> p x)"
proof (cases "\<exists>x\<in>set xs. p x")
  case True
  then show ?thesis
    using findIndex_from_some [of xs p 0] by (auto simp: findIndex_def)
next
  case False
  then show ?thesis
    using findIndex_from_none [of xs p 0] by (auto simp: findIndex_def)
qed

lemma splice1_findIndex:
  assumes "\<exists>x\<in>set xs. p x"
  shows "splice1 (findIndex p xs) xs =
         takeWhile (\<lambda>x. \<not> p x) xs @ tl (dropWhile (\<lambda>x. \<not> p x) xs)"
proof -
  let ?n = "length (takeWhile (\<lambda>x. \<not> p x) xs)"
  have "findIndex p xs = int ?n"
    using findIndex_from_some [OF assms, of 0] by (simp add: findIndex_def)
  then have "splice1 (findIndex p xs) xs = take ?n xs @ drop (Suc ?n) xs"
    by (simp add: splice1_def)
  moreover have "take ?n xs = takeWhile (\<lambda>x. \<not> p x) xs"
    using takeWhile_eq_take [of "\<lambda>x. \<not> p x" xs] by simp
  moreover have "drop (Suc ?n) xs = tl (dropWhile (\<lambda>x. \<not> p x) xs)"
    using dropWhile_eq_drop [of "\<lambda>x. \<not> p x" xs] by (simp only: drop_Suc tl_drop)
  ultimately show ?thesis by simp
qed

lemma split_at_first:
  assumes "\<exists>x\<in>set xs. p x"
  shows "\<exists>pre x post. xs = pre @ x # post \<and> p x \<and> (\<forall>y\<in>set pre. \<not> p y) \<and>
           splice1 (findIndex p xs) xs = pre @ post"
proof -
  let ?pre = "takeWhile (\<lambda>x. \<not> p x) xs" and ?rest = "dropWhile (\<lambda>x. \<not> p x) xs"
  have ne: "?rest \<noteq> []" using assms by (simp add: dropWhile_eq_Nil_conv)
  then obtain x post where r: "?rest = x # post" by (cases ?rest) auto
  have px: "p x" using hd_dropWhile [OF ne] r by simp
  have xs: "xs = ?pre @ x # post" using takeWhile_dropWhile_id [of "\<lambda>x. \<not> p x" xs] r by simp
  have pre: "\<forall>y\<in>set ?pre. \<not> p y" by (auto dest: set_takeWhileD)
  have sp: "splice1 (findIndex p xs) xs = ?pre @ post"
    using splice1_findIndex [OF assms] r by simp
  from xs px pre sp show ?thesis by blast
qed

section \<open>The handlers of the data service, branch by branch\<close>

lemma post_users_400:
  "\<not> truthy nm \<or> \<not> truthy em \<Longrightarrow>
   post_users fid now (nm, em, rl) r =
     (Some (400, ErrorBody ''Name and email are required''), r)"
  by (auto simp: post_users_def)

lemma post_users_409:
  assumes "served 1 r" "truthy nm" "truthy em"
    and "\<exists>u\<in>set (parse_users (users_key r)). email u = em"
  shows "fst (post_users fid now (nm, em, rl) r) =
           Some (409, ErrorBody ''Email already exists'')"
proof -
  have g: "redis_get r = (Some (Inr (users_key r)), snd (issue GET r))"
    using assms(1) redis_get_served [of 0 r] by simp
  have f: "find (\<lambda>u. email u = em) (parse_users (users_key r)) \<noteq> None"
    using assms(4) by (auto simp: find_None_iff)
  show ?thesis
    using assms(2,3) f by (simp add: post_users_def g Let_def)
qed

lemma post_users_201:
  assumes "served 2 r" "truthy nm" "truthy em"
    and "\<forall>u\<in>set (parse_users (users_key r)). email u \<noteq> em"
  shows "post_users fid now (nm, em, rl) r =
          (Some (201, UserBody \<lparr>uid = fid, name = nm, email = em,
                           role = js_or rl (JStr ''user''), createdAt = now\<rparr>),
           (snd (issue (SET (parse_users (users_key r) @
                 [\<lparr>uid = fid, name = nm, email = em,
                   role = js_or rl (JStr ''user''), createdAt = now\<rparr>])) (snd (issue GET r))))
             \<lparr>users_key := Some (parse_users (users_key r) @
                 [\<lparr>uid = fid, name = nm, email = em,
                   role = js_or rl (JStr ''user''), createdAt = now\<rparr>])\<rparr>)"
proof -
  have s2: "served (Suc 1) r" using assms(1) by (simp add: numeral_2_eq_2)
  have g: "redis_get r = (Some (Inr (users_key r)), snd (issue GET r))"
    using s2 by (rule redis_get_served)
  have s1: "served (Suc 0) (snd (issue GET r))"
    using issue_served_snd [OF s2, of GET] by simp
  have f: "find (\<lambda>u. email u = em) (parse_users (users_key r)) = None"
    using assms(4) by (auto simp: find_None_iff)
  show ?thesis
    using assms(2,3) f by (simp add: post_users_def g Let_def redis_set_served [OF s1])
qed

lemma initializeData_present:
  assumes "users_key r \<noteq> None"
  shows "users_key (snd (initializeData fresh r)) = users_key r"
    and "filter is_write (oplog (snd (initializeData fresh r))) = filter is_write (oplog r)"
proof -
  obtain c r1 where c: "redis_connect r = (c, r1)" by (cases "redis_connect r")
  obtain e r2 where e: "redis_exists r1 = (e, r2)" by (cases "redis_exists r1")
  have k1: "users_key r1 = users_key r"
    and w1: "filter is_write (oplog r1) = filter is_write (oplog r)"
    using redis_connect_keeps [of r] c by simp_all
  have k2: "users_key r2 = users_key r"
    and w2: "filter is_write (oplog r2) = filter is_write (oplog r)"
    using redis_exists_keeps [of r1] e k1 w1 by simp_all
  have ne: "\<And>n. e = Some (Inr n) \<Longrightarrow> n \<noteq> 0"
    using redis_exists_result [of r1] e k1 assms by simp
  show "users_key (snd (initializeData fresh r)) = users_key r"
    using k1 k2 ne by (auto simp: initializeData_def c e split: sum.splits option.splits)
  show "filter is_write (oplog (snd (initializeData fresh r))) = filter is_write (oplog r)"
    using w1 w2 ne by (auto simp: initializeData_def c e split: sum.splits option.splits)
qed

lemma initializeData_absent:
  assumes "users_key r = None" and "served 3 r"
  shows "fst (initializeData fresh r) = Some ()"
    and "users_key (snd (initializeData fresh r)) = Some (sampleUsers fresh)"
proof -
  have s3: "served (Suc 2) r" using assms(2) by (simp add: numeral_3_eq_3)
  have c: "redis_connect r = (Some (Inr ()), snd (issue CONNECT r))"
    using s3 by (rule redis_connect_served)
  have s2: "served (Suc 1) (snd (issue CONNECT r))"
    using issue_served_snd [OF s3, of CONNECT] by (simp add: numeral_2_eq_2)
  have k1: "users_key (snd (issue CONNECT r)) = None"
    using assms(1) by (simp add: issue_users_key)
  have e: "redis_exists (snd (issue CONNECT r)) =
             (Some (Inr 0), snd (issue EXISTS (snd (issue CONNECT r))))"
    using redis_exists_served [OF s2] k1 by simp
  have s1: "served (Suc 0) (snd (issue EXISTS (snd (issue CONNECT r))))"
    using issue_served_snd [OF s2, of EXISTS] by simp
  show "fst (initializeData fresh r) = Some ()"
    by (simp add: initializeData_def c e redis_set_served [OF s1])
  show "users_key (snd (initializeData fresh r)) = Some (sampleUsers fresh)"
    by (simp add: initializeData_def c e redis_set_served [OF s1])
qed

lemma delete_users_id_404:
  assumes "served 1 r" and "\<forall>u\<in>set (parse_users (users_key r)). uid u \<noteq> i"
  shows "delete_users_id i r = (Some (404, ErrorBody ''User not found''), snd (issue GET r))"
proof -
  have g: "redis_get r = (Some (Inr (users_key r)), snd (issue GET r))"
    using assms(1) redis_get_served [of 0 r] by simp
  have f: "findIndex (\<lambda>u. uid u = i) (parse_users (users_key r)) = -1"
    using assms(2) by (simp add: findIndex_minus1_iff)
  show ?thesis by (simp add: delete_users_id_def g Let_def f)
qed

lemma delete_users_id_204:
  assumes "served 2 r" and "\<exists>u\<in>set (parse_users (users_key r)). uid u = i"
  shows "delete_users_id i r =
          (Some (204, NoBody),
           (snd (issue (SET (splice1 (findIndex (\<lambda>u. uid u = i) (parse_users (users_key r)))
                                      (parse_users (users_key r))))
                       (snd (issue GET r))))
             \<lparr>users_key := Some (splice1 (findIndex (\<lambda>u. uid u = i) (parse_users (users_key r)))
                                          (parse_users (users_key r)))\<rparr>)"
proof -
  have s2: "served (Suc 1) r" using assms(1) by (simp add: numeral_2_eq_2)
  have g: "redis_get r = (Some (Inr (users_key r)), snd (issue GET r))"
    using s2 by (rule redis_get_served)
  have s1: "served (Suc 0) (snd (issue GET r))"
    using issue_served_snd [OF s2, of GET] by simp
  have f: "findIndex (\<lambda>u. uid u = i) (parse_users (users_key r)) \<noteq> -1"
    using assms(2) by (simp add: findIndex_minus1_iff)
  show ?thesis
    using f by (simp add: delete_users_id_def g Let_def redis_set_served [OF s1])
qed

section \<open>Facts about the gateway's calls\<close>

lemma axios_request_Responds:
  "axios_request timeout (Responds t resp) =
     (if timeout = 0 \<or> t < timeout then Some (t, settle resp)
      else Some (timeout, Rejected (NoResponse ''ECONNABORTED'')))"
  by (simp add: axios_request_def)

lemma axios_request_Fails:
  "axios_request timeout (Fails t m) =
     (if timeout = 0 \<or> t < timeout then Some (t, Rejected (NoResponse m))
      else Some (timeout, Rejected (NoResponse ''ECONNABORTED'')))"
  by (simp add: axios_request_def)

lemma axios_request_Silent:
  "axios_request timeout Silent =
     (if timeout = 0 then None else Some (timeout, Rejected (NoResponse ''ECONNABORTED'')))"
  by (simp add: axios_request_def)

lemma axios_request_bound:
  "0 < timeout \<Longrightarrow> \<exists>t a. axios_request timeout u = Some (t, a) \<and> t \<le> timeout"
  by (auto simp: axios_request_def split: option.splits)

lemma gateway_ready_up:
  "net ''/health'' = Responds t (s, b) \<Longrightarrow> t < 2000 \<Longrightarrow> validateStatus s \<Longrightarrow>
   gateway_get_health_ready net = Some (t, (200, ReadyBody ''ready'' ''userService'' ''up''))"
  by (simp add: gateway_get_health_ready_def axios_request_Responds settle_def)

lemma gateway_ready_bound:
  "\<exists>t' resp. gateway_get_health_ready net = Some (t', resp) \<and> t' \<le> 2000"
proof -
  obtain t a where "axios_request 2000 (net ''/health'') = Some (t, a)" "t \<le> 2000"
    using axios_request_bound [of 2000 "net ''/health''"] by auto
  then show ?thesis
    by (cases a) (simp_all add: gateway_get_health_ready_def)
qed

lemma gateway_ready_down:
  "net ''/health'' = Silent \<or> net ''/health'' = Fails t m \<or>
   (net ''/health'' = Responds t resp \<and> 2000 \<le> t) \<Longrightarrow>
   \<exists>t'\<le>2000. gateway_get_health_ready net
      = Some (t', (503, ReadyBody ''not ready'' ''userService'' ''down''))"
  by (auto simp: gateway_get_health_ready_def axios_request_Responds axios_request_Fails
        axios_request_Silent)

lemma forward_follows_redirect:
  "forward_get_users_id net_moved ''u1'' = Some (12, (200, UserBody ann))"
  by (simp add: forward_get_users_id_def net_moved_def axios_request_def maxRedirects_def
        settle_def validateStatus_def api_get_users_id_def)

section \<open>The gateway's error mapping\<close>

text \<open>
  Claim C1 says that \<^verbatim>\<open>POST /api/users\<close> forwards what the data service answered, and
  that an upstream client error such as 400 or 409 reaches the caller unchanged instead of
  becoming 502. The \<^verbatim>\<open>catch\<close> block of this handler never looks at
  \<^verbatim>\<open>error.response\<close>: every rejected call is answered with 502. The theorem runs the
  request that creates a user whose email is already stored. The data service answers 409,
  \<^verbatim>\<open>axios\<close> rejects with that response, and the gateway answers 502 with its own body.
  The handler of \<^verbatim>\<open>GET /api/users/:id\<close> next to it does pass the client error of its
  route (404) through, as the last conjunct shows.
\<close>

theorem api_post_users_conflict_becomes_502:
  "fst (post_users ''u2'' ''2024-01-02T00:00:00.000Z''
          (JStr ''Ann B'', JStr ''ann@x.io'', JUndefined) store_with_ann)
     = Some (409, ErrorBody ''Email already exists'')
   \<and> fst (api_post_users_via ''u2'' ''2024-01-02T00:00:00.000Z''
          (JStr ''Ann B'', JStr ''ann@x.io'', JUndefined) store_with_ann)
     = Some (502, ErrorBody ''Failed to create user'')
   \<and> api_get_users_id (settle (404, ErrorBody ''User not found''))
     = (404, ErrorBody ''User not found'')"
  by (simp add: api_post_users_via_def post_users_def store_with_ann_def ann_def redis_get_def
      issue_def parse_users_def api_post_users_def settle_def validateStatus_def
      api_get_users_id_def)

text \<open>
  At that request the gateway's answer is not the answer of the data service: neither the
  status nor the body is forwarded.
\<close>

theorem api_post_users_conflict_becomes_502_witness:
  "fst (api_post_users_via ''u2'' ''2024-01-02T00:00:00.000Z''
          (JStr ''Ann B'', JStr ''ann@x.io'', JUndefined) store_with_ann)
   \<noteq> fst (post_users ''u2'' ''2024-01-02T00:00:00.000Z''
          (JStr ''Ann B'', JStr ''ann@x.io'', JUndefined) store_with_ann)"
  using api_post_users_conflict_becomes_502 by simp




section \<open>The data service: create, list, seed, delete\<close>

text \<open>
  Claim C3: \<^verbatim>\<open>POST /users\<close> with body \<^verbatim>\<open>{name, email, role?}\<close>. A missing name or
  email is what the handler tests with \<^verbatim>\<open>!name || !email\<close>: the field is absent or
  otherwise falsy. Then the answer is 400. Otherwise, when the store serves the read and
  some record of the collection has that email, the answer is 409. Otherwise, when the
  store serves the read and the write, the answer is 201 with a new record that has the
  name and email of the body, the role of the body or \<^verbatim>\<open>'user'\<close> when the body has
  none, the identifier and the timestamp generated in this call; the stored collection is
  the old one with that record appended, written as a whole by one \<^verbatim>\<open>SET\<close>. (A store
  that rejects a command gives 500, which is the store failure of the contract and not one
  of the three outcomes of the claim.)
\<close>

theorem post_users_contract:
  "(\<not> truthy nm \<or> \<not> truthy em \<longrightarrow>
      fst (post_users fid now (nm, em, rl) r)
        = Some (400, ErrorBody ''Name and email are required''))
   \<and> (served 1 r \<and> truthy nm \<and> truthy em \<and>
       (\<exists>u\<in>set (parse_users (users_key r)). email u = em) \<longrightarrow>
      fst (post_users fid now (nm, em, rl) r) = Some (409, ErrorBody ''Email already exists''))
   \<and> (served 2 r \<and> truthy nm \<and> truthy em \<and>
       (\<forall>u\<in>set (parse_users (users_key r)). email u \<noteq> em) \<longrightarrow>
      (\<exists>newUser.
         fst (post_users fid now (nm, em, rl) r) = Some (201, UserBody newUser) \<and>
         uid newUser = fid \<and> name newUser = nm \<and> email newUser = em \<and>
         createdAt newUser = now \<and>
         (truthy rl \<longrightarrow> role newUser = rl) \<and>
         (rl = JUndefined \<longrightarrow> role newUser = JStr ''user'') \<and>
         users_key (snd (post_users fid now (nm, em, rl) r)) =
           Some (parse_users (users_key r) @ [newUser]) \<and>
         oplog (snd (post_users fid now (nm, em, rl) r)) =
           oplog r @ [GET, SET (parse_users (users_key r) @ [newUser])]))"
proof (intro conjI impI)
  assume "\<not> truthy nm \<or> \<not> truthy em"
  then show "fst (post_users fid now (nm, em, rl) r) =
             Some (400, ErrorBody ''Name and email are required'')"
    by (simp add: post_users_400)
next
  assume "served 1 r \<and> truthy nm \<and> truthy em \<and>
          (\<exists>u\<in>set (parse_users (users_key r)). email u = em)"
  then show "fst (post_users fid now (nm, em, rl) r)
               = Some (409, ErrorBody ''Email already exists'')"
    using post_users_409 by blast
next
  assume a: "served 2 r \<and> truthy nm \<and> truthy em \<and>
          (\<forall>u\<in>set (parse_users (users_key r)). email u \<noteq> em)"
  let ?u = "\<lparr>uid = fid, name = nm, email = em,
             role = js_or rl (JStr ''user''), createdAt = now\<rparr>"
  have p: "post_users fid now (nm, em, rl) r =
          (Some (201, UserBody ?u),
           (snd (issue (SET (parse_users (users_key r) @ [?u])) (snd (issue GET r))))
             \<lparr>users_key := Some (parse_users (users_key r) @ [?u])\<rparr>)"
    using a post_users_201 by blast
  show "\<exists>newUser.
         fst (post_users fid now (nm, em, rl) r) = Some (201, UserBody newUser) \<and>
         uid newUser = fid \<and> name newUser = nm \<and> email newUser = em \<and>
         createdAt newUser = now \<and>
         (truthy rl \<longrightarrow> role newUser = rl) \<and>
         (rl = JUndefined \<longrightarrow> role newUser = JStr ''user'') \<and>
         users_key (snd (post_users fid now (nm, em, rl) r)) =
           Some (parse_users (users_key r) @ [newUser]) \<and>
         oplog (snd (post_users fid now (nm, em, rl) r)) =
           oplog r @ [GET, SET (parse_users (users_key r) @ [newUser])]"
    by (rule exI [of _ ?u]) (simp add: p js_or_def issue_oplog)
qed

theorem post_users_contract_witness:
  "fst (post_users ''u2'' ''2024-01-02T00:00:00.000Z''
          (JUndefined, JStr ''bob@x.io'', JUndefined) store_with_ann)
     = Some (400, ErrorBody ''Name and email are required'')
   \<and> fst (post_users ''u2'' ''2024-01-02T00:00:00.000Z''
          (JStr ''Ann B'', JStr ''ann@x.io'', JUndefined) store_with_ann)
     = Some (409, ErrorBody ''Email already exists'')
   \<and> (\<exists>newUser.
         fst (post_users ''u2'' ''2024-01-02T00:00:00.000Z''
                (JStr ''Bob'', JStr ''bob@x.io'', JUndefined) store_with_ann)
           = Some (201, UserBody newUser) \<and>
         uid newUser = ''u2'' \<and> name newUser = JStr ''Bob'' \<and>
         email newUser = JStr ''bob@x.io'' \<and> role newUser = JStr ''user'' \<and>
         users_key (snd (post_users ''u2'' ''2024-01-02T00:00:00.000Z''
                (JStr ''Bob'', JStr ''bob@x.io'', JUndefined) store_with_ann))
           = Some [ann, newUser])"
proof -
  have h1: "\<not> truthy JUndefined \<or> \<not> truthy (JStr ''bob@x.io'')"
    by simp
  have h2: "served 1 store_with_ann \<and> truthy (JStr ''Ann B'') \<and> truthy (JStr ''ann@x.io'') \<and>
            (\<exists>u\<in>set (parse_users (users_key store_with_ann)). email u = JStr ''ann@x.io'')"
    by (simp add: served_def store_with_ann_def parse_users_def ann_def)
  have h3: "served 2 store_with_ann \<and> truthy (JStr ''Bob'') \<and> truthy (JStr ''bob@x.io'') \<and>
            (\<forall>u\<in>set (parse_users (users_key store_with_ann)). email u \<noteq> JStr ''bob@x.io'')"
    by (simp add: served_def store_with_ann_def parse_users_def ann_def)
  have k: "parse_users (users_key store_with_ann) = [ann]"
    by (simp add: store_with_ann_def parse_users_def)
  from post_users_contract
         [of JUndefined "JStr ''bob@x.io''" "''u2''" "''2024-01-02T00:00:00.000Z''"
             JUndefined store_with_ann] h1
  have c1: "fst (post_users ''u2'' ''2024-01-02T00:00:00.000Z''
              (JUndefined, JStr ''bob@x.io'', JUndefined) store_with_ann)
            = Some (400, ErrorBody ''Name and email are required'')"
    by blast
  from post_users_contract
         [of "JStr ''Ann B''" "JStr ''ann@x.io''" "''u2''" "''2024-01-02T00:00:00.000Z''"
             JUndefined store_with_ann] h2
  have c2: "fst (post_users ''u2'' ''2024-01-02T00:00:00.000Z''
              (JStr ''Ann B'', JStr ''ann@x.io'', JUndefined) store_with_ann)
            = Some (409, ErrorBody ''Email already exists'')"
    by blast
  from post_users_contract
         [of "JStr ''Bob''" "JStr ''bob@x.io''" "''u2''" "''2024-01-02T00:00:00.000Z''"
             JUndefined store_with_ann] h3
  obtain newUser where
    "fst (post_users ''u2'' ''2024-01-02T00:00:00.000Z''
                (JStr ''Bob'', JStr ''bob@x.io'', JUndefined) store_with_ann)
           = Some (201, UserBody newUser)"
    "uid newUser = ''u2''" "name newUser = JStr ''Bob''"
    "email newUser = JStr ''bob@x.io''" "role newUser = JStr ''user''"
    "users_key (snd (post_users ''u2'' ''2024-01-02T00:00:00.000Z''
                (JStr ''Bob'', JStr ''bob@x.io'', JUndefined) store_with_ann))
           = Some (parse_users (users_key store_with_ann) @ [newUser])"
    by blast
  with c1 c2 k show ?thesis by auto
qed

text \<open>
  Claim C4: when the store serves the read, \<^verbatim>\<open>GET /users\<close> answers 200 with
  \<^verbatim>\<open>{data, total}\<close>, where \<open>data\<close> is the stored collection and \<open>total\<close> its
  length; when the key is absent the body is \<^verbatim>\<open>{data: [], total: 0}\<close>.
\<close>

theorem get_users_ok:
  "served 1 r \<longrightarrow>
     fst (get_users r) =
       Some (200, UsersBody (parse_users (users_key r)) (length (parse_users (users_key r))))
     \<and> (users_key r = None \<longrightarrow> fst (get_users r) = Some (200, UsersBody [] 0))"
proof
  assume "served 1 r"
  then have "redis_get r = (Some (Inr (users_key r)), snd (issue GET r))"
    using redis_get_served [of 0 r] by simp
  then show "fst (get_users r) =
       Some (200, UsersBody (parse_users (users_key r)) (length (parse_users (users_key r))))
     \<and> (users_key r = None \<longrightarrow> fst (get_users r) = Some (200, UsersBody [] 0))"
    by (simp add: get_users_def Let_def parse_users_def)
qed

theorem get_users_ok_witness:
  "served 1 store_with_ann \<and> served 1 store_never_seeded
   \<and> fst (get_users store_with_ann) = Some (200, UsersBody [ann] 1)
   \<and> users_key store_never_seeded = None
   \<and> fst (get_users store_never_seeded) = Some (200, UsersBody [] 0)"
  using get_users_ok [of store_with_ann] get_users_ok [of store_never_seeded]
  by (simp add: served_def store_with_ann_def store_never_seeded_def parse_users_def)

text \<open>
  Claim C5: \<^verbatim>\<open>initializeData\<close> is idempotent. When the key is present it writes
  nothing, whatever the store does: the stored collection and the \<^verbatim>\<open>SET\<close> commands in
  the log are as before. When the key is absent and the store serves its three commands
  it returns and has written the three sample records, whose names, emails and roles are
  fixed. So a second run, with its own fresh identifiers and timestamps and whatever the
  store does during it, leaves the collection that the first run left: the records are not
  written twice.
\<close>

theorem initializeData_idempotent:
  "(users_key r \<noteq> None \<longrightarrow>
      users_key (snd (initializeData fresh r)) = users_key r \<and>
      filter is_write (oplog (snd (initializeData fresh r))) = filter is_write (oplog r))
   \<and> (users_key r = None \<and> served 3 r \<longrightarrow>
      fst (initializeData fresh r) = Some () \<and>
      users_key (snd (initializeData fresh r)) = Some (sampleUsers fresh))
   \<and> map (\<lambda>u. (name u, email u, role u)) (sampleUsers fresh) =
       [(JStr ''John Doe'', JStr ''john@example.com'', JStr ''admin''),
        (JStr ''Jane Smith'', JStr ''jane@example.com'', JStr ''user''),
        (JStr ''Bob Wilson'', JStr ''bob@example.com'', JStr ''user'')]
   \<and> (users_key r \<noteq> None \<or> served 3 r \<longrightarrow>
      users_key (snd (initializeData fresh' (snd (initializeData fresh r)))) =
      users_key (snd (initializeData fresh r)))"
proof (intro conjI impI)
  assume "users_key r \<noteq> None"
  then show "users_key (snd (initializeData fresh r)) = users_key r"
    by (rule initializeData_present)
next
  assume "users_key r \<noteq> None"
  then show "filter is_write (oplog (snd (initializeData fresh r))) = filter is_write (oplog r)"
    by (rule initializeData_present)
next
  assume "users_key r = None \<and> served 3 r"
  then show "fst (initializeData fresh r) = Some ()"
    using initializeData_absent(1) by blast
next
  assume "users_key r = None \<and> served 3 r"
  then show "users_key (snd (initializeData fresh r)) = Some (sampleUsers fresh)"
    using initializeData_absent(2) by blast
next
  show "map (\<lambda>u. (name u, email u, role u)) (sampleUsers fresh) =
       [(JStr ''John Doe'', JStr ''john@example.com'', JStr ''admin''),
        (JStr ''Jane Smith'', JStr ''jane@example.com'', JStr ''user''),
        (JStr ''Bob Wilson'', JStr ''bob@example.com'', JStr ''user'')]"
    by (simp add: sampleUsers_def)
next
  assume a: "users_key r \<noteq> None \<or> served 3 r"
  have "users_key (snd (initializeData fresh r)) \<noteq> None"
  proof (cases "users_key r")
    case None
    with a show ?thesis using initializeData_absent(2) [of r fresh] by simp
  next
    case (Some us)
    then show ?thesis using initializeData_present(1) [of r fresh] by simp
  qed
  then show "users_key (snd (initializeData fresh' (snd (initializeData fresh r)))) =
             users_key (snd (initializeData fresh r))"
    by (rule initializeData_present)
qed

theorem initializeData_idempotent_witness:
  "users_key store_never_seeded = None \<and> served 3 store_never_seeded
   \<and> fst (initializeData fresh_a store_never_seeded) = Some ()
   \<and> users_key (snd (initializeData fresh_a store_never_seeded)) = Some (sampleUsers fresh_a)
   \<and> users_key (snd (initializeData fresh_b (snd (initializeData fresh_a store_never_seeded))))
       = Some (sampleUsers fresh_a)
   \<and> users_key store_with_ann \<noteq> None
   \<and> users_key (snd (initializeData fresh_a store_with_ann)) = Some [ann]
   \<and> filter is_write (oplog (snd (initializeData fresh_a store_with_ann))) = []"
proof -
  have h: "users_key store_never_seeded = None \<and> served 3 store_never_seeded"
    by (simp add: store_never_seeded_def served_def)
  have g: "users_key store_with_ann \<noteq> None"
    by (simp add: store_with_ann_def)
  have k: "users_key store_with_ann = Some [ann]" "oplog store_with_ann = []"
    by (simp_all add: store_with_ann_def)
  show ?thesis
    using h g k
      initializeData_idempotent [of store_never_seeded fresh_a fresh_b]
      initializeData_idempotent [of store_with_ann fresh_a fresh_b]
    by simp
qed

text \<open>
  Claim C6: \<^verbatim>\<open>DELETE /users/:id\<close>. When the store serves the read and no record of the
  collection has the identifier, the answer is 404, the stored collection is unchanged and
  the only command sent is the read. When the store serves the read and the write and a
  record has the identifier, the first such record is removed, the remaining collection is
  written as a whole by one \<^verbatim>\<open>SET\<close>, and the answer is 204 with no body.
\<close>

theorem delete_users_id_contract:
  "(served 1 r \<and> (\<forall>u\<in>set (parse_users (users_key r)). uid u \<noteq> i) \<longrightarrow>
      fst (delete_users_id i r) = Some (404, ErrorBody ''User not found'') \<and>
      users_key (snd (delete_users_id i r)) = users_key r \<and>
      oplog (snd (delete_users_id i r)) = oplog r @ [GET])
   \<and> (served 2 r \<and> (\<exists>u\<in>set (parse_users (users_key r)). uid u = i) \<longrightarrow>
      (\<exists>pre u post.
         parse_users (users_key r) = pre @ u # post \<and> uid u = i \<and>
         (\<forall>v\<in>set pre. uid v \<noteq> i) \<and>
         fst (delete_users_id i r) = Some (204, NoBody) \<and>
         users_key (snd (delete_users_id i r)) = Some (pre @ post) \<and>
         oplog (snd (delete_users_id i r)) = oplog r @ [GET, SET (pre @ post)]))"
proof (intro conjI impI)
  assume a: "served 1 r \<and> (\<forall>u\<in>set (parse_users (users_key r)). uid u \<noteq> i)"
  then have d: "delete_users_id i r
                  = (Some (404, ErrorBody ''User not found''), snd (issue GET r))"
    using delete_users_id_404 by blast
  show "fst (delete_users_id i r) = Some (404, ErrorBody ''User not found'')" by (simp add: d)
  show "users_key (snd (delete_users_id i r)) = users_key r" by (simp add: d issue_users_key)
  show "oplog (snd (delete_users_id i r)) = oplog r @ [GET]" by (simp add: d issue_oplog)
next
  assume a: "served 2 r \<and> (\<exists>u\<in>set (parse_users (users_key r)). uid u = i)"
  let ?us = "parse_users (users_key r)"
  let ?rest = "splice1 (findIndex (\<lambda>u. uid u = i) ?us) ?us"
  have d: "delete_users_id i r =
          (Some (204, NoBody),
           (snd (issue (SET ?rest) (snd (issue GET r))))\<lparr>users_key := Some ?rest\<rparr>)"
    using a delete_users_id_204 by blast
  from a have "\<exists>x\<in>set ?us. uid x = i" by simp
  from split_at_first [of ?us "\<lambda>u. uid u = i", OF this]
  obtain pre u post where s: "?us = pre @ u # post" "uid u = i"
    "\<forall>v\<in>set pre. uid v \<noteq> i" "?rest = pre @ post"
    by blast
  show "\<exists>pre u post.
         parse_users (users_key r) = pre @ u # post \<and> uid u = i \<and>
         (\<forall>v\<in>set pre. uid v \<noteq> i) \<and>
         fst (delete_users_id i r) = Some (204, NoBody) \<and>
         users_key (snd (delete_users_id i r)) = Some (pre @ post) \<and>
         oplog (snd (delete_users_id i r)) = oplog r @ [GET, SET (pre @ post)]"
    using s by (intro exI [of _ pre] exI [of _ u] exI [of _ post]) (simp add: d issue_oplog)
qed

theorem delete_users_id_contract_witness:
  "served 2 store_with_ann
   \<and> parse_users (users_key store_with_ann) = [ann] \<and> uid ann = ''u1''
   \<and> fst (delete_users_id ''u9'' store_with_ann) = Some (404, ErrorBody ''User not found'')
   \<and> users_key (snd (delete_users_id ''u9'' store_with_ann)) = Some [ann]
   \<and> oplog (snd (delete_users_id ''u9'' store_with_ann)) = [GET]
   \<and> fst (delete_users_id ''u1'' store_with_ann) = Some (204, NoBody)
   \<and> users_key (snd (delete_users_id ''u1'' store_with_ann)) = Some []
   \<and> oplog (snd (delete_users_id ''u1'' store_with_ann)) = [GET, SET []]"
proof -
  have s: "served 1 store_with_ann" "served 2 store_with_ann"
    by (simp_all add: served_def store_with_ann_def)
  have k: "parse_users (users_key store_with_ann) = [ann]" "oplog store_with_ann = []"
    "users_key store_with_ann = Some [ann]"
    by (simp_all add: store_with_ann_def parse_users_def)
  have n: "\<forall>u\<in>set (parse_users (users_key store_with_ann)). uid u \<noteq> ''u9''"
    by (simp add: store_with_ann_def parse_users_def ann_def)
  have y: "\<exists>u\<in>set (parse_users (users_key store_with_ann)). uid u = ''u1''"
    by (simp add: store_with_ann_def parse_users_def ann_def)
  from delete_users_id_contract [of store_with_ann "''u9''"] s n
  have a: "fst (delete_users_id ''u9'' store_with_ann) = Some (404, ErrorBody ''User not found'')"
    "users_key (snd (delete_users_id ''u9'' store_with_ann)) = Some [ann]"
    "oplog (snd (delete_users_id ''u9'' store_with_ann)) = [GET]"
    by (simp_all add: k)
  from delete_users_id_contract [of store_with_ann "''u1''"] s y
  have "\<exists>pre u post.
          parse_users (users_key store_with_ann) = pre @ u # post \<and>
          fst (delete_users_id ''u1'' store_with_ann) = Some (204, NoBody) \<and>
          users_key (snd (delete_users_id ''u1'' store_with_ann)) = Some (pre @ post) \<and>
          oplog (snd (delete_users_id ''u1'' store_with_ann)) =
            oplog store_with_ann @ [GET, SET (pre @ post)]"
    by blast
  then obtain pre u post where b: "[ann] = pre @ u # post"
    "fst (delete_users_id ''u1'' store_with_ann) = Some (204, NoBody)"
    "users_key (snd (delete_users_id ''u1'' store_with_ann)) = Some (pre @ post)"
    "oplog (snd (delete_users_id ''u1'' store_with_ann)) = [GET, SET (pre @ post)]"
    by (auto simp: k(1) k(2))
  from b(1) have e: "pre = []" "post = []"
    by (simp_all add: Cons_eq_append_conv)
  have c: "users_key (snd (delete_users_id ''u1'' store_with_ann)) = Some []"
    "oplog (snd (delete_users_id ''u1'' store_with_ann)) = [GET, SET []]"
    using b(3,4) e by simp_all
  have ua: "uid ann = ''u1''"
    by (simp add: ann_def)
  from a b(2) c s(2) k(1) ua show ?thesis by simp
qed

text \<open>
  Claim C10: validation comes before any use of the store. When the body of
  \<^verbatim>\<open>POST /users\<close> has no name or no email, the answer is 400 and the store client is
  exactly as before: no command was sent, so the log is unchanged. This holds for every
  store, one that rejects every command or answers none included.
\<close>

theorem post_users_validation_first:
  "\<not> truthy nm \<or> \<not> truthy em \<longrightarrow>
     post_users fid now (nm, em, rl) r
       = (Some (400, ErrorBody ''Name and email are required''), r)"
  by (simp add: post_users_400)

theorem post_users_validation_first_witness:
  "\<not> truthy JUndefined
   \<and> \<not> served 1 store_down
   \<and> post_users ''u2'' ''2024-01-02T00:00:00.000Z'' (JStr ''Ann'', JUndefined, JStr ''admin'')
        store_down
       = (Some (400, ErrorBody ''Name and email are required''), store_down)
   \<and> oplog (snd (post_users ''u2'' ''2024-01-02T00:00:00.000Z''
        (JStr ''Ann'', JUndefined, JStr ''admin'') store_down)) = []"
  using post_users_validation_first
          [of "JStr ''Ann''" JUndefined "''u2''" "''2024-01-02T00:00:00.000Z''"
              "JStr ''admin''" store_down]
  by (simp add: served_def store_down_def)

section \<open>Readiness\<close>

text \<open>
  Claim C7 says that \<^verbatim>\<open>GET /health/ready\<close> of the data service probes the store with a
  bounded-time ping and answers 503 when the ping times out. The handler awaits
  \<^verbatim>\<open>redis.ping()\<close> with no timer around it, and the client has no command timeout:
  when the store holds the connection and never answers the ping, the handler sends no
  answer, neither 200 nor 503.
\<close>

theorem get_health_ready_stalls_counterexample:
  "fst (get_health_ready store_silent) = None"
  by (simp add: get_health_ready_cases next_reply_def store_silent_def)

text \<open>
  Claim C7 as the code has it: \<^verbatim>\<open>GET /health/ready\<close> of the data service sends one
  \<^verbatim>\<open>PING\<close> and sets no time bound of its own. When the ping resolves the answer is 200
  with status \<^verbatim>\<open>ready\<close> and \<^verbatim>\<open>redis: up\<close>; when the ping is rejected (connection
  failure, or the client giving up its retries) the answer is 503 with \<^verbatim>\<open>not ready\<close>
  and \<^verbatim>\<open>redis: down\<close>; while the ping stays pending the handler sends no answer. The
  rejection is caught: nothing leaves the handler but one of the two answers.
\<close>

theorem get_health_ready_total:
  "(served 1 r \<longrightarrow>
      fst (get_health_ready r) = Some (200, ReadyBody ''ready'' ''redis'' ''up''))
   \<and> (next_reply r = Rejects \<longrightarrow>
      fst (get_health_ready r) = Some (503, ReadyBody ''not ready'' ''redis'' ''down''))
   \<and> (next_reply r = Stalls \<longrightarrow> fst (get_health_ready r) = None)
   \<and> oplog (snd (get_health_ready r)) = oplog r @ [PING]"
  by (simp add: get_health_ready_cases served_1_iff issue_oplog)

theorem get_health_ready_total_witness:
  "served 1 store_with_ann
   \<and> fst (get_health_ready store_with_ann) = Some (200, ReadyBody ''ready'' ''redis'' ''up'')
   \<and> next_reply store_down = Rejects
   \<and> fst (get_health_ready store_down) = Some (503, ReadyBody ''not ready'' ''redis'' ''down'')
   \<and> next_reply store_silent = Stalls
   \<and> oplog (snd (get_health_ready store_silent)) = [PING]"
  using get_health_ready_total [of store_with_ann] get_health_ready_total [of store_down]
    get_health_ready_total [of store_silent]
  by (simp add: served_def next_reply_def store_with_ann_def store_down_def store_silent_def)

text \<open>
  Claim C8: \<^verbatim>\<open>GET /health/ready\<close> of the gateway sends one \<^verbatim>\<open>GET\<close> to
  \<^verbatim>\<open>/health\<close> of the data service with a timeout of 2000 ms. It always answers, and
  within 2000 ms. When \<^verbatim>\<open>/health\<close> answers with a 2xx status before the timeout the
  answer is 200 with \<^verbatim>\<open>userService: up\<close>. When nothing comes back, the connection
  fails or the answer is later than the timeout, it is 503 with \<^verbatim>\<open>userService: down\<close>.
  The answer depends on what \<^verbatim>\<open>/health\<close> does and on no other path: a data service
  whose store does not serve the ping answers \<^verbatim>\<open>/health/ready\<close> with 503 (or, when
  the ping stays pending, not at all) and \<^verbatim>\<open>/health\<close> with 200, and the gateway
  reports it as up.
\<close>

theorem gateway_get_health_ready_probe:
  "(\<exists>t' resp. gateway_get_health_ready net = Some (t', resp) \<and> t' \<le> 2000)
   \<and> (net ''/health'' = Responds t (s, b) \<and> t < 2000 \<and> validateStatus s \<longrightarrow>
        gateway_get_health_ready net
          = Some (t, (200, ReadyBody ''ready'' ''userService'' ''up'')))
   \<and> (net ''/health'' = Silent \<or> net ''/health'' = Fails t m \<or>
       (net ''/health'' = Responds t resp \<and> 2000 \<le> t) \<longrightarrow>
        (\<exists>t'\<le>2000. gateway_get_health_ready net
           = Some (t', (503, ReadyBody ''not ready'' ''userService'' ''down''))))
   \<and> (net ''/health'' = net' ''/health'' \<longrightarrow>
        gateway_get_health_ready net = gateway_get_health_ready net')
   \<and> (net ''/health'' = Responds t (fst (get_health ts r)) \<and> t < 2000 \<and> \<not> served 1 r \<longrightarrow>
        fst (get_health_ready r) =
          (if next_reply r = Rejects
           then Some (503, ReadyBody ''not ready'' ''redis'' ''down'') else None) \<and>
        gateway_get_health_ready net
          = Some (t, (200, ReadyBody ''ready'' ''userService'' ''up'')))"
proof (intro conjI impI)
  show "\<exists>t' resp. gateway_get_health_ready net = Some (t', resp) \<and> t' \<le> 2000"
    by (rule gateway_ready_bound)
next
  assume "net ''/health'' = Responds t (s, b) \<and> t < 2000 \<and> validateStatus s"
  then show "gateway_get_health_ready net
          = Some (t, (200, ReadyBody ''ready'' ''userService'' ''up''))"
    using gateway_ready_up by blast
next
  assume "net ''/health'' = Silent \<or> net ''/health'' = Fails t m \<or>
       (net ''/health'' = Responds t resp \<and> 2000 \<le> t)"
  then show "\<exists>t'\<le>2000. gateway_get_health_ready net
           = Some (t', (503, ReadyBody ''not ready'' ''userService'' ''down''))"
    by (rule gateway_ready_down)
next
  assume "net ''/health'' = net' ''/health''"
  then show "gateway_get_health_ready net = gateway_get_health_ready net'"
    by (simp add: gateway_get_health_ready_def)
next
  assume a: "net ''/health'' = Responds t (fst (get_health ts r)) \<and> t < 2000 \<and> \<not> served 1 r"
  then show "fst (get_health_ready r) =
          (if next_reply r = Rejects
           then Some (503, ReadyBody ''not ready'' ''redis'' ''down'') else None)"
    by (cases "next_reply r") (simp_all add: get_health_ready_cases served_1_iff)
  from a show "gateway_get_health_ready net
          = Some (t, (200, ReadyBody ''ready'' ''userService'' ''up''))"
    using gateway_ready_up [of net t 200 "HealthyBody ''user-service'' ts"]
    by (simp add: get_health_def validateStatus_def)
qed

theorem gateway_get_health_ready_probe_witness:
  "net_up ''/health'' = Responds 12 (fst (get_health ''2024-01-01T00:00:00.000Z'' store_down))
   \<and> \<not> served 1 store_down
   \<and> fst (get_health_ready store_down)
       = Some (503, ReadyBody ''not ready'' ''redis'' ''down'')
   \<and> gateway_get_health_ready net_up
       = Some (12, (200, ReadyBody ''ready'' ''userService'' ''up''))
   \<and> net_silent ''/health'' = Silent
   \<and> (\<exists>t'. t' \<le> 2000 \<and> gateway_get_health_ready net_silent
         = Some (t', (503, ReadyBody ''not ready'' ''userService'' ''down'')))"
proof -
  have h1: "net_up ''/health'' =
              Responds 12 (fst (get_health ''2024-01-01T00:00:00.000Z'' store_down))
            \<and> (12::nat) < 2000 \<and> \<not> served 1 store_down"
    by (simp add: net_up_def get_health_def served_def store_down_def)
  have h2: "net_silent ''/health'' = Silent"
    by (simp add: net_silent_def)
  have h3: "next_reply store_down = Rejects"
    by (simp add: next_reply_def store_down_def)
  from gateway_get_health_ready_probe
         [of net_up 12 200 "HealthyBody ''user-service'' ''2024-01-01T00:00:00.000Z''"
             "''''" "(200, NoBody)" net_up "''2024-01-01T00:00:00.000Z''" store_down] h1 h3
  have a: "fst (get_health_ready store_down)
             = Some (503, ReadyBody ''not ready'' ''redis'' ''down'')"
    "gateway_get_health_ready net_up
       = Some (12, (200, ReadyBody ''ready'' ''userService'' ''up''))"
    by simp_all
  from gateway_get_health_ready_probe
         [of net_silent 0 200 NoBody "''''" "(200, NoBody)" net_silent
             "''2024-01-01T00:00:00.000Z''" store_down] h2
  have b: "\<exists>t'. t' \<le> 2000 \<and> gateway_get_health_ready net_silent
         = Some (t', (503, ReadyBody ''not ready'' ''userService'' ''down''))"
    by blast
  from h1 h2 a b show ?thesis by blast
qed

section \<open>Exit status of the shutdown sequence\<close>

text \<open>
  Claim C9: after a termination signal each service exits with status 0 when the orderly
  sequence (the listener closes without an error and, in the data service, the store
  connection is then closed) completes before the timer of 30000 ms, and with a status
  other than 0 when the listener close reported an error or the timer fired first. Either
  way the process is gone 30000 ms after the signal at the latest.
\<close>

theorem handleGracefulShutdown_exit_status:
  "(orderly_user_service sv run \<longrightarrow> snd (handleGracefulShutdown_user_service sv run) = 0)
   \<and> (close_error run \<or> timer_first_user_service sv run \<longrightarrow>
        snd (handleGracefulShutdown_user_service sv run) \<noteq> 0)
   \<and> (orderly_gateway run \<longrightarrow> snd (handleGracefulShutdown_gateway run) = 0)
   \<and> (close_error run \<or> timer_first_gateway run \<longrightarrow>
        snd (handleGracefulShutdown_gateway run) \<noteq> 0)
   \<and> fst (handleGracefulShutdown_user_service sv run) \<le> SHUTDOWN_TIMEOUT_MS
   \<and> fst (handleGracefulShutdown_gateway run) \<le> SHUTDOWN_TIMEOUT_MS
   \<and> SHUTDOWN_TIMEOUT_MS = 30000"
  by (auto simp: orderly_user_service_def orderly_gateway_def close_error_def
        timer_first_user_service_def timer_first_gateway_def
        handleGracefulShutdown_user_service_def handleGracefulShutdown_gateway_def
        first_exit_def SHUTDOWN_TIMEOUT_MS_def split: option.splits prod.splits if_splits)

theorem handleGracefulShutdown_exit_status_witness:
  "orderly_user_service True run_orderly \<and> orderly_gateway run_orderly
   \<and> handleGracefulShutdown_user_service True run_orderly = (135, 0)
   \<and> handleGracefulShutdown_gateway run_orderly = (120, 0)
   \<and> close_error run_close_error
   \<and> snd (handleGracefulShutdown_user_service True run_close_error) \<noteq> 0
   \<and> snd (handleGracefulShutdown_gateway run_close_error) \<noteq> 0
   \<and> timer_first_user_service True run_stuck \<and> timer_first_gateway run_stuck
   \<and> snd (handleGracefulShutdown_user_service True run_stuck) \<noteq> 0
   \<and> snd (handleGracefulShutdown_gateway run_stuck) \<noteq> 0"
proof -
  have h1: "orderly_user_service True run_orderly" "orderly_gateway run_orderly"
    by (simp_all add: orderly_user_service_def orderly_gateway_def run_orderly_def
          SHUTDOWN_TIMEOUT_MS_def)
  have h2: "close_error run_close_error"
    by (simp add: close_error_def run_close_error_def)
  have h3: "timer_first_user_service True run_stuck" "timer_first_gateway run_stuck"
    by (simp_all add: timer_first_user_service_def timer_first_gateway_def run_stuck_def)
  have e: "handleGracefulShutdown_user_service True run_orderly = (135, 0)"
    "handleGracefulShutdown_gateway run_orderly = (120, 0)"
    by (simp_all add: handleGracefulShutdown_user_service_def
          handleGracefulShutdown_gateway_def first_exit_def run_orderly_def
          SHUTDOWN_TIMEOUT_MS_def)
  from h1 h2 h3 e
    handleGracefulShutdown_exit_status [of True run_orderly]
    handleGracefulShutdown_exit_status [of True run_close_error]
    handleGracefulShutdown_exit_status [of True run_stuck]
  show ?thesis by blast
qed

end
